theory Spec2Isabelle
  imports Main
begin

section \<open>JavaScript values, exceptions and host primitives\<close>

text \<open>
  A field or payload of TypeScript type \<open>T | undefined\<close>: either the value
  \<open>undefined\<close> or a value of \<open>T\<close>. Payloads handed to the factories are of this type
  too, since a caller may pass \<open>undefined\<close> for any \<open>T\<close>.
\<close>

datatype 'a or_undefined = Undefined | Defined 'a

text \<open>
  A value of type \<open>unknown\<close>, as caught by a \<open>catch\<close> clause. The library inspects
  such a value only through \<open>instanceof Error\<close>, \<open>.message\<close>, \<open>typeof\<close>,
  \<open>JSON.stringify(v, null, 2)\<close> and \<open>String(v)\<close>. All but \<open>typeof\<close> can run code of
  the value's own (a proxy trap, a getter, \<open>toJSON\<close>, \<open>toString\<close>) and so can throw
  any value. The model classifies a value by the tests of \<open>extractErrorMessage\<close> and
  keeps of it what these calls do on it:
  \<^item> \<open>InstanceofThrows x\<close>: \<open>instanceof Error\<close> throws \<open>x\<close>;
  \<^item> \<open>ErrorInstance m\<close>: \<open>instanceof Error\<close> holds and \<open>.message\<close> is \<open>m\<close>;
  \<^item> \<open>ErrorMessageThrows x\<close>: \<open>instanceof Error\<close> holds and reading \<open>.message\<close>
    throws \<open>x\<close>;
  \<^item> \<open>StringValue s\<close>: \<open>typeof\<close> is \<open>'string'\<close>;
  \<^item> \<open>ObjectValue obj\<close>: \<open>typeof\<close> is \<open>'object'\<close>, not null, not an \<open>Error\<close>;
  \<^item> \<open>OtherValue v\<close>: anything else.

  Of a non-null object that is not an \<open>Error\<close>, the model keeps what
  \<open>JSON.stringify(data, null, 2)\<close> does: it returns the indented text \<open>s\<close>
  (\<open>Serializable s\<close>), it returns \<open>undefined\<close> (\<open>SerializesToUndefined\<close>, as when
  \<open>toJSON\<close> returns \<open>undefined\<close>), or it throws \<open>x\<close> (\<open>Unserializable x\<close>): a
  \<open>TypeError\<close> on a circular structure, or whatever \<open>toJSON\<close> throws.

  Of a value that is neither a string nor a non-null object, the model keeps what
  \<open>String(v)\<close> does: \<open>null\<close> gives \<open>'null'\<close>; on any other (undefined, number, boolean,
  bigint, symbol, function) it returns \<open>s\<close> (\<open>NonObject s\<close>) or throws \<open>x\<close>
  (\<open>Unprintable x\<close>, as on a function whose \<open>toString\<close> throws).

  A computation that may throw returns \<open>js_unknown + 'a\<close>, with \<open>Inl\<close> the thrown value.
\<close>

datatype js_unknown =
    InstanceofThrows js_unknown
  | ErrorInstance string
  | ErrorMessageThrows js_unknown
  | StringValue string
  | ObjectValue js_object
  | OtherValue js_other
and js_object = Serializable string | SerializesToUndefined | Unserializable js_unknown
and js_other = Null | NonObject string | Unprintable js_unknown

text \<open>The host's \<open>JSON.stringify(data, null, 2)\<close> on an object.\<close>

fun JSON_stringify :: "js_object \<Rightarrow> js_unknown + string or_undefined" where
  "JSON_stringify (Serializable s) = Inr (Defined s)"
| "JSON_stringify SerializesToUndefined = Inr Undefined"
| "JSON_stringify (Unserializable x) = Inl x"

text \<open>
  The host's \<open>String(v)\<close>, on the values that reach it in \<open>extractErrorMessage\<close>.
\<close>

fun js_String :: "js_other \<Rightarrow> js_unknown + string" where
  "js_String Null = Inr ''null''"
| "js_String (NonObject s) = Inr s"
| "js_String (Unprintable x) = Inl x"

section \<open>The Either class (src/either.ts)\<close>

text \<open>
  The class has three private read-only fields, \<open>value: T | undefined\<close>,
  \<open>error: E | undefined\<close> and \<open>_isOk: boolean\<close>, set by the private constructor.
\<close>

record ('t, 'e) Either =
  this_value :: "'t or_undefined"
  this_error :: "'e or_undefined"
  this_isOk :: bool

definition Ok :: "'t or_undefined \<Rightarrow> ('t, 'e) Either" where
  "Ok v = \<lparr>this_value = v, this_error = Undefined, this_isOk = True\<rparr>"

definition Error :: "'e or_undefined \<Rightarrow> ('t, 'e) Either" where
  "Error e = \<lparr>this_value = Undefined, this_error = e, this_isOk = False\<rparr>"

definition isOk :: "('t, 'e) Either \<Rightarrow> bool" where
  "isOk this = this_isOk this"

definition isError :: "('t, 'e) Either \<Rightarrow> bool" where
  "isError this = (\<not> this_isOk this)"

definition getValue :: "('t, 'e) Either \<Rightarrow> js_unknown + 't or_undefined" where
  "getValue this =
     (if \<not> isOk this then Inl (ErrorInstance ''Cannot access value in a non-Ok instance'')
      else Inr (this_value this))"

definition getError :: "('t, 'e) Either \<Rightarrow> js_unknown + 'e or_undefined" where
  "getError this =
     (if \<not> isError this then Inl (ErrorInstance ''Cannot access error in a non-Error instance'')
      else Inr (this_error this))"

text \<open>
  \<open>zip\<close>: the result's payload is the JavaScript pair \<open>[this.value, other.getValue()]\<close>.
\<close>

definition zip_Either ::
  "('t, 'e) Either \<Rightarrow> ('u, 'e) Either \<Rightarrow>
   js_unknown + ('t or_undefined \<times> 'u or_undefined, 'e) Either" where
  "zip_Either this other =
     (if isError this then Inr (Error (this_error this))
      else if isError other then
        (case getError other of Inl x \<Rightarrow> Inl x | Inr e \<Rightarrow> Inr (Error e))
      else
        (case getValue other of
           Inl x \<Rightarrow> Inl x
         | Inr u \<Rightarrow> Inr (Ok (Defined (this_value this, u)))))"

text \<open>
  \<open>filter\<close>: \<open>this.isOk() && predicate(this.value) ? this : Either.Error(error)\<close>.
  The predicate is a caller's function and may throw; \<open>&&\<close> calls it only when
  \<open>this.isOk()\<close> holds, and what it throws propagates.
\<close>

definition filter_Either ::
  "('t, 'e) Either \<Rightarrow> ('t or_undefined \<Rightarrow> js_unknown + bool) \<Rightarrow> 'e or_undefined \<Rightarrow>
   js_unknown + ('t, 'e) Either" where
  "filter_Either this predicate error =
     (if isOk this then
        (case predicate (this_value this) of
           Inl x \<Rightarrow> Inl x
         | Inr b \<Rightarrow> Inr (if b then this else Error error))
      else Inr (Error error))"

definition swap :: "('t, 'e) Either \<Rightarrow> ('e, 't) Either" where
  "swap this = (if isOk this then Error (this_value this) else Ok (this_error this))"

section \<open>Safe wrappers and collection combinators (either-types.ts)\<close>

text \<open>
  \<open>safeStringify\<close> is declared to return a string; at run time it returns what
  \<open>JSON.stringify\<close> returns, which can be \<open>undefined\<close>.
\<close>

definition safeStringify :: "js_object \<Rightarrow> js_unknown + string or_undefined" where
  "safeStringify data = JSON_stringify data"

text \<open>
  \<open>extractErrorMessage\<close>: the tests in the source's order. The \<open>instanceof\<close> test, the
  read of \<open>.message\<close>, \<open>safeStringify\<close> and \<open>String\<close> can each throw; nothing here
  catches what they throw.
\<close>

definition extractErrorMessage :: "js_unknown \<Rightarrow> js_unknown + string or_undefined" where
  "extractErrorMessage error =
     (case error of
        InstanceofThrows x \<Rightarrow> Inl x
      | ErrorInstance message \<Rightarrow> Inr (Defined message)
      | ErrorMessageThrows x \<Rightarrow> Inl x
      | StringValue s \<Rightarrow> Inr (Defined s)
      | ObjectValue obj \<Rightarrow> safeStringify obj
      | OtherValue v \<Rightarrow> (case js_String v of Inl x \<Rightarrow> Inl x | Inr s \<Rightarrow> Inr (Defined s)))"

text \<open>
  \<open>safeSync\<close>: \<open>fn\<close> is the caller's operation, which returns a value or throws.
  \<open>ErrClass\<close> is the caller's error constructor: \<open>new ErrClass(msg)\<close> returns an error
  or throws. Only the call of \<open>fn\<close> is inside \<open>try\<close>; what \<open>extractErrorMessage\<close> or
  the constructor throws inside the \<open>catch\<close> block propagates to the caller.
\<close>

definition safeSync ::
  "(unit \<Rightarrow> js_unknown + 't or_undefined) \<Rightarrow> (string or_undefined \<Rightarrow> js_unknown + 'e) \<Rightarrow>
   js_unknown + ('t, 'e) Either" where
  "safeSync fn ErrClass =
     (case fn () of
        Inr v \<Rightarrow> Inr (Ok v)
      | Inl error \<Rightarrow>
          (case extractErrorMessage error of
             Inl x \<Rightarrow> Inl x
           | Inr msg \<Rightarrow>
               (case ErrClass msg of
                  Inl x \<Rightarrow> Inl x
                | Inr e \<Rightarrow> Inr (Error (Defined e)))))"

text \<open>
  What \<open>await fn()\<close> yields when it does not throw: a value on which
  \<open>value instanceof Either\<close> holds, a value on which it does not hold, or a value on
  which the test itself throws \<open>x\<close> (a proxy whose trap throws).
\<close>

datatype ('t, 'e) resolved =
    EitherInstance "('t, 'e) Either"
  | PlainValue "'t or_undefined"
  | UntestableValue js_unknown

text \<open>
  \<open>safeAsync\<close>: \<open>fn ()\<close> stands for the outcome of \<open>await fn()\<close> once the awaited
  promise has settled: \<open>Inr\<close> the value it is fulfilled with, \<open>Inl\<close> the value that
  \<open>fn\<close> throws or the promise is rejected with. The result is the settled state of the
  promise that \<open>safeAsync\<close> returns: \<open>Inr\<close> fulfilled, \<open>Inl\<close> rejected. The \<open>await\<close>
  and the \<open>instanceof\<close> test are inside \<open>try\<close>; the \<open>catch\<close> block is that of
  \<open>safeSync\<close>.
\<close>

definition safeAsync ::
  "(unit \<Rightarrow> js_unknown + ('t, 'e) resolved) \<Rightarrow> (string or_undefined \<Rightarrow> js_unknown + 'e) \<Rightarrow>
   js_unknown + ('t, 'e) Either" where
  "safeAsync fn ErrClass =
     (case (case fn () of
              Inl error \<Rightarrow> Inl error
            | Inr v \<Rightarrow>
                (case v of
                   EitherInstance either \<Rightarrow> Inr either
                 | PlainValue x \<Rightarrow> Inr (Ok x)
                 | UntestableValue x \<Rightarrow> Inl x)) of
        Inr either \<Rightarrow> Inr either
      | Inl error \<Rightarrow>
          (case extractErrorMessage error of
             Inl x \<Rightarrow> Inl x
           | Inr msg \<Rightarrow>
               (case ErrClass msg of
                  Inl x \<Rightarrow> Inl x
                | Inr e \<Rightarrow> Inr (Error (Defined e)))))"

text \<open>
  \<open>sequence\<close>: the \<open>for\<close> loop over \<open>eithers\<close>, with the local array \<open>results\<close> as
  an accumulator; \<open>push\<close> appends at the end.
\<close>

fun sequence_loop ::
  "('t, 'e) Either list \<Rightarrow> 't or_undefined list \<Rightarrow> js_unknown + ('t or_undefined list, 'e) Either" where
  "sequence_loop [] results = Inr (Ok (Defined results))"
| "sequence_loop (either # rest) results =
     (if isError either then
        (case getError either of Inl x \<Rightarrow> Inl x | Inr e \<Rightarrow> Inr (Error e))
      else
        (case getValue either of
           Inl x \<Rightarrow> Inl x
         | Inr v \<Rightarrow> sequence_loop rest (results @ [v])))"

definition sequence ::
  "('t, 'e) Either list \<Rightarrow> js_unknown + ('t or_undefined list, 'e) Either" where
  "sequence eithers = sequence_loop eithers []"

fun partition_loop ::
  "('t, 'e) Either list \<Rightarrow> 't or_undefined list \<Rightarrow> 'e or_undefined list \<Rightarrow>
   js_unknown + ('t or_undefined list \<times> 'e or_undefined list)" where
  "partition_loop [] oks errors = Inr (oks, errors)"
| "partition_loop (either # rest) oks errors =
     (if isOk either then
        (case getValue either of
           Inl x \<Rightarrow> Inl x
         | Inr v \<Rightarrow> partition_loop rest (oks @ [v]) errors)
      else
        (case getError either of
           Inl x \<Rightarrow> Inl x
         | Inr e \<Rightarrow> partition_loop rest oks (errors @ [e])))"

definition partition_Either ::
  "('t, 'e) Either list \<Rightarrow> js_unknown + ('t or_undefined list \<times> 'e or_undefined list)" where
  "partition_Either eithers = partition_loop eithers [] []"

text \<open>
  \<open>traverse\<close>: \<open>fn\<close> is the caller's function and may throw; the loop calls it on
  one element at a time and returns at the first failure it yields.
\<close>

fun traverse_loop ::
  "'a list \<Rightarrow> ('a \<Rightarrow> js_unknown + ('u, 'e) Either) \<Rightarrow> 'u or_undefined list \<Rightarrow>
   js_unknown + ('u or_undefined list, 'e) Either" where
  "traverse_loop [] fn results = Inr (Ok (Defined results))"
| "traverse_loop (v # rest) fn results =
     (case fn v of
        Inl x \<Rightarrow> Inl x
      | Inr either \<Rightarrow>
          (if isError either then
             (case getError either of Inl x \<Rightarrow> Inl x | Inr e \<Rightarrow> Inr (Error e))
           else
             (case getValue either of
                Inl x \<Rightarrow> Inl x
              | Inr u \<Rightarrow> traverse_loop rest fn (results @ [u]))))"

definition traverse ::
  "'a list \<Rightarrow> ('a \<Rightarrow> js_unknown + ('u, 'e) Either) \<Rightarrow>
   js_unknown + ('u or_undefined list, 'e) Either" where
  "traverse values fn = traverse_loop values fn []"

text \<open>
  \<open>sequenceAll\<close>: the failure payload is the array \<open>errors\<close>, the success payload the
  array \<open>oks\<close>.
\<close>

definition sequenceAll ::
  "('t, 'e) Either list \<Rightarrow>
   js_unknown + ('t or_undefined list, 'e or_undefined list) Either" where
  "sequenceAll eithers =
     (case partition_Either eithers of
        Inl x \<Rightarrow> Inl x
      | Inr (oks, errors) \<Rightarrow>
          Inr (if length errors > 0 then Error (Defined errors) else Ok (Defined oks)))"

text \<open>
  index.ts exports one function under two names, \<open>collectAllErrors\<close> and, as the
  legacy name, \<open>sequenceAll\<close>; either-types.ts defines it as \<open>sequenceAll\<close>.
\<close>

definition collectAllErrors ::
  "('t, 'e) Either list \<Rightarrow>
   js_unknown + ('t or_undefined list, 'e or_undefined list) Either" where
  "collectAllErrors = sequenceAll"

section \<open>The specification's reading of traverse\<close>

text \<open>
  \<open>values.map(fn)\<close> with a function that may throw: the elements in order, the first
  throw ending the call.
\<close>

fun map_throwing :: "('a \<Rightarrow> js_unknown + 'b) \<Rightarrow> 'a list \<Rightarrow> js_unknown + 'b list" where
  "map_throwing fn [] = Inr []"
| "map_throwing fn (v # rest) =
     (case fn v of
        Inl x \<Rightarrow> Inl x
      | Inr y \<Rightarrow> (case map_throwing fn rest of Inl x \<Rightarrow> Inl x | Inr ys \<Rightarrow> Inr (y # ys)))"

text \<open>
  The specification's words for \<open>traverse\<close>: map \<open>fn\<close> over the list, then call
  \<open>sequence\<close> on the resulting list.
\<close>

definition traverse_spec ::
  "'a list \<Rightarrow> ('a \<Rightarrow> js_unknown + ('u, 'e) Either) \<Rightarrow>
   js_unknown + ('u or_undefined list, 'e) Either" where
  "traverse_spec values fn =
     (case map_throwing fn values of Inl x \<Rightarrow> Inl x | Inr eithers \<Rightarrow> sequence eithers)"

section \<open>Sample inputs\<close>

text \<open>
  Operations, predicates, functions and constructors taken from the examples of the
  specification and of the repository's test-suite.
\<close>

definition greater_than_3 :: "nat or_undefined \<Rightarrow> js_unknown + bool" where
  "greater_than_3 x = (case x of Undefined \<Rightarrow> Inr False | Defined n \<Rightarrow> Inr (3 < n))"

definition throwing_predicate :: "nat or_undefined \<Rightarrow> js_unknown + bool" where
  "throwing_predicate x = Inl (ErrorInstance ''Predicate failed'')"

text \<open>
  The built-in \<open>Error\<close> as the error constructor: \<open>new Error(msg)\<close> does not throw, and
  the message of \<open>new Error(undefined)\<close> is the empty string.
\<close>

definition new_Error :: "string or_undefined \<Rightarrow> js_unknown + js_unknown" where
  "new_Error msg = Inr (ErrorInstance (case msg of Undefined \<Rightarrow> [] | Defined s \<Rightarrow> s))"

text \<open>An error constructor that throws.\<close>

definition new_FailingError :: "string or_undefined \<Rightarrow> js_unknown + js_unknown" where
  "new_FailingError msg = Inl (ErrorInstance ''constructor failed'')"

definition return_42 :: "unit \<Rightarrow> js_unknown + nat or_undefined" where
  "return_42 u = Inr (Defined 42)"

definition throw_Error :: "unit \<Rightarrow> js_unknown + nat or_undefined" where
  "throw_Error u = Inl (ErrorInstance ''Function failed'')"

definition throw_boom :: "unit \<Rightarrow> js_unknown + nat or_undefined" where
  "throw_boom u = Inl (StringValue ''boom'')"

definition throw_object :: "unit \<Rightarrow> js_unknown + nat or_undefined" where
  "throw_object u = Inl (ObjectValue (Serializable ''{}''))"

definition throw_null :: "unit \<Rightarrow> js_unknown + nat or_undefined" where
  "throw_null u = Inl (OtherValue Null)"

definition throw_undefined :: "unit \<Rightarrow> js_unknown + nat or_undefined" where
  "throw_undefined u = Inl (OtherValue (NonObject ''undefined''))"

text \<open>A thrown function whose \<open>toString\<close> throws.\<close>

definition throw_unprintable :: "unit \<Rightarrow> js_unknown + nat or_undefined" where
  "throw_unprintable u = Inl (OtherValue (Unprintable (ErrorInstance ''toString failed'')))"

text \<open>A thrown \<open>Error\<close> whose \<open>message\<close> getter throws.\<close>

definition throw_unreadable :: "unit \<Rightarrow> js_unknown + nat or_undefined" where
  "throw_unreadable u = Inl (ErrorMessageThrows (StringValue ''getter failed''))"

text \<open>A thrown proxy whose \<open>getPrototypeOf\<close> trap throws.\<close>

definition throw_proxy :: "unit \<Rightarrow> js_unknown + nat or_undefined" where
  "throw_proxy u = Inl (InstanceofThrows (StringValue ''trap failed''))"

text \<open>
  The test-suite's \<open>circularError\<close>: an object with a property that refers to the
  object itself, on which \<open>JSON.stringify\<close> throws a \<open>TypeError\<close>.
\<close>

definition circularError :: js_unknown where
  "circularError =
     ObjectValue (Unserializable (ErrorInstance ''Converting circular structure to JSON''))"

definition throw_circularError :: "unit \<Rightarrow> js_unknown + nat or_undefined" where
  "throw_circularError u = Inl circularError"

definition reject_circularError :: "unit \<Rightarrow> js_unknown + (nat, js_unknown) resolved" where
  "reject_circularError u = Inl circularError"

definition resolve_Ok_42 :: "unit \<Rightarrow> js_unknown + (nat, js_unknown) resolved" where
  "resolve_Ok_42 u = Inr (EitherInstance (Ok (Defined 42)))"

definition resolve_42 :: "unit \<Rightarrow> js_unknown + (nat, js_unknown) resolved" where
  "resolve_42 u = Inr (PlainValue (Defined 42))"

definition resolve_proxy :: "unit \<Rightarrow> js_unknown + (nat, js_unknown) resolved" where
  "resolve_proxy u = Inr (UntestableValue (StringValue ''trap failed''))"

definition reject_string :: "unit \<Rightarrow> js_unknown + (nat, js_unknown) resolved" where
  "reject_string u = Inl (StringValue ''Async string error'')"

definition double_unless_2 :: "nat \<Rightarrow> js_unknown + (nat, string) Either" where
  "double_unless_2 x =
     Inr (if x = 2 then Error (Defined ''Failed at 2'') else Ok (Defined (x * 2)))"

section \<open>State queries and extraction\<close>

lemma isOk_Ok [simp]: "isOk (Ok v)"
  by (simp add: isOk_def Ok_def)

lemma isError_Ok [simp]: "\<not> isError (Ok v)"
  by (simp add: isError_def Ok_def)

lemma isOk_Error [simp]: "\<not> isOk (Error e)"
  by (simp add: isOk_def Error_def)

lemma isError_Error [simp]: "isError (Error e)"
  by (simp add: isError_def Error_def)

lemma isError_iff_not_isOk: "isError this = (\<not> isOk this)"
  by (simp add: isError_def isOk_def)

lemma fields_Ok [simp]: "this_value (Ok v) = v" "this_error (Ok v) = Undefined"
  by (simp_all add: Ok_def)

lemma fields_Error [simp]: "this_value (Error e) = Undefined" "this_error (Error e) = e"
  by (simp_all add: Error_def)

lemma getValue_Ok [simp]: "getValue (Ok v) = Inr v"
  by (simp add: getValue_def)

lemma getError_Error [simp]: "getError (Error e) = Inr e"
  by (simp add: getError_def)

lemma getValue_isOk: "isOk this \<Longrightarrow> getValue this = Inr (this_value this)"
  by (simp add: getValue_def)

lemma getError_isError: "isError this \<Longrightarrow> getError this = Inr (this_error this)"
  by (simp add: getError_def)

lemma getValue_not_isError: "\<not> isError this \<Longrightarrow> getValue this = Inr (this_value this)"
  by (simp add: getValue_def isError_iff_not_isOk)

text \<open>
  C1 (as the claim states it, refuted): \<open>Either.Ok(undefined)\<close> does not report
  "neither state". The claim says both \<open>isOk()\<close> and \<open>isError()\<close> are false on it;
  \<open>isOk()\<close> returns the \<open>_isOk\<close> flag, which \<open>Ok\<close> sets to true whatever the payload.
\<close>

theorem Ok_undefined_neither_state_counterexample:
  "\<not> (isOk (Ok Undefined :: (nat, string) Either) = False
      \<and> isError (Ok Undefined :: (nat, string) Either) = False)"
  by simp

text \<open>
  C1 (amended): when the success factory is called with \<open>undefined\<close>, the instance is
  in the success state like any other: \<open>isOk()\<close> is true, \<open>isError()\<close> is false, and
  \<open>getValue()\<close> returns \<open>undefined\<close> without throwing.
\<close>

theorem Ok_undefined_is_success:
  "isOk (Ok Undefined) = True
   \<and> isError (Ok Undefined) = False
   \<and> getValue (Ok Undefined) = Inr Undefined"
  by simp

text \<open>
  C9: \<open>getValue\<close> returns the success payload on a success-state instance, and throws
  an \<open>Error\<close> (the specification's InvalidStateAccess) whose message is exactly "Cannot access value in a non-Ok instance" if
  and only if the instance is in the failure state; \<open>getError\<close> returns the failure
  payload on a failure-state instance, and throws an \<open>Error\<close> whose message is exactly
  "Cannot access error in a non-Error instance" if and only if the instance is in the
  success state. Neither throws anything else.
\<close>

theorem getValue_getError_guarded:
  fixes this :: "('t, 'e) Either"
  shows
  "getValue (Ok v :: ('t, 'e) Either) = Inr v
   \<and> getValue (Error e :: ('t, 'e) Either)
       = Inl (ErrorInstance ''Cannot access value in a non-Ok instance'')
   \<and> getError (Error e :: ('t, 'e) Either) = Inr e
   \<and> getError (Ok v :: ('t, 'e) Either)
       = Inl (ErrorInstance ''Cannot access error in a non-Error instance'')
   \<and> (isOk this \<longrightarrow> getValue this = Inr (this_value this))
   \<and> (getValue this = Inl (ErrorInstance ''Cannot access value in a non-Ok instance''))
       = isError this
   \<and> (\<exists>x. getValue this = Inl x) = isError this
   \<and> (isError this \<longrightarrow> getError this = Inr (this_error this))
   \<and> (getError this = Inl (ErrorInstance ''Cannot access error in a non-Error instance''))
       = isOk this
   \<and> (\<exists>x. getError this = Inl x) = isOk this"
  by (auto simp: getValue_def getError_def isError_iff_not_isOk)

text \<open>C9 at the test-suite's instances \<open>Ok('success')\<close> and \<open>Error('failed')\<close>.\<close>

theorem getValue_getError_guarded_witness:
  "isOk (Ok (Defined ''success'') :: (string, string) Either)
   \<and> getValue (Ok (Defined ''success'') :: (string, string) Either) = Inr (Defined ''success'')
   \<and> isError (Error (Defined ''failed'') :: (string, string) Either)
   \<and> getError (Error (Defined ''failed'') :: (string, string) Either) = Inr (Defined ''failed'')
   \<and> getValue (Error (Defined ''failed'') :: (string, string) Either)
       = Inl (ErrorInstance ''Cannot access value in a non-Ok instance'')
   \<and> getError (Ok (Defined ''success'') :: (string, string) Either)
       = Inl (ErrorInstance ''Cannot access error in a non-Error instance'')"
  using getValue_getError_guarded
      [of "Defined ''success''" "Defined ''failed''"
          "Ok (Defined ''success'') :: (string, string) Either"]
    getValue_getError_guarded
      [of "Defined ''success''" "Defined ''failed''"
          "Error (Defined ''failed'') :: (string, string) Either"]
  by simp

section \<open>Transformation and combination\<close>

text \<open>
  C2: on an instance in the failure state, \<open>filter\<close> returns a failure instance
  wrapping \<open>errorIfFails\<close>, whatever the predicate is (also one that would throw: it is
  not called) and whatever the stored failure payload is; on an instance in the success
  state it returns the instance itself when the predicate returns true on the value, and
  a failure instance wrapping \<open>errorIfFails\<close> when the predicate returns false.
\<close>

theorem filter_cases:
  "(isError this \<longrightarrow> filter_Either this p errorIfFails = Inr (Error errorIfFails))
   \<and> (isOk this \<and> p (this_value this) = Inr True \<longrightarrow>
        filter_Either this p errorIfFails = Inr this)
   \<and> (isOk this \<and> p (this_value this) = Inr False \<longrightarrow>
        filter_Either this p errorIfFails = Inr (Error errorIfFails))"
  by (simp add: filter_Either_def isError_iff_not_isOk)

text \<open>
  C2 at \<open>Error('Original error')\<close> with a predicate that throws, and at \<open>Ok(5)\<close> and
  \<open>Ok(2)\<close> with the predicate \<open>x > 3\<close>.
\<close>

theorem filter_cases_witness:
  "isError (Error (Defined ''Original error'') :: (nat, string) Either)
   \<and> filter_Either (Error (Defined ''Original error'')) throwing_predicate (Defined ''Too small'')
       = Inr (Error (Defined ''Too small''))
   \<and> greater_than_3 (this_value (Ok (Defined 5) :: (nat, string) Either)) = Inr True
   \<and> filter_Either (Ok (Defined 5)) greater_than_3 (Defined ''Too small'')
       = Inr (Ok (Defined 5))
   \<and> greater_than_3 (this_value (Ok (Defined 2) :: (nat, string) Either)) = Inr False
   \<and> filter_Either (Ok (Defined 2)) greater_than_3 (Defined ''Too small'')
       = Inr (Error (Defined ''Too small''))"
  using filter_cases [of "Error (Defined ''Original error'')" throwing_predicate "Defined ''Too small''"]
    filter_cases [of "Ok (Defined 5)" greater_than_3 "Defined ''Too small''"]
    filter_cases [of "Ok (Defined 2)" greater_than_3 "Defined ''Too small''"]
  by (simp add: greater_than_3_def)

text \<open>
  C5: \<open>a.zip(b)\<close> is a success instance wrapping the pair of both values when both are
  successes; a failure wrapping \<open>a\<close>'s payload when \<open>a\<close> is a failure, whatever \<open>b\<close> is;
  and a failure wrapping \<open>b\<close>'s payload only when \<open>a\<close> is a success and \<open>b\<close> a failure.
  It never throws.
\<close>

theorem zip_left_precedence:
  fixes this :: "('t, 'e) Either" and that :: "('u, 'e) Either"
  shows
  "zip_Either (Ok a :: ('t, 'e) Either) (Ok b :: ('u, 'e) Either) = Inr (Ok (Defined (a, b)))
   \<and> zip_Either (Error e1 :: ('t, 'e) Either) that = Inr (Error e1)
   \<and> zip_Either (Ok a :: ('t, 'e) Either) (Error e2 :: ('u, 'e) Either) = Inr (Error e2)
   \<and> zip_Either this that =
       Inr (if isError this then Error (this_error this)
            else if isError that then Error (this_error that)
            else Ok (Defined (this_value this, this_value that)))"
  by (simp add: zip_Either_def getError_isError getValue_not_isError)

text \<open>
  C10: \<open>Ok(v).swap()\<close> is a failure-state instance whose failure payload is \<open>v\<close>, and
  \<open>Error(e).swap()\<close> is a success-state instance whose success payload is \<open>e\<close>; swapping
  twice gives back an instance with the discriminant and the payload of the original.
\<close>

theorem swap_involution:
  fixes this :: "('t, 'e) Either"
  shows
  "swap (Ok v :: ('t, 'e) Either) = Error v
   \<and> isError (swap (Ok v :: ('t, 'e) Either))
   \<and> getError (swap (Ok v :: ('t, 'e) Either)) = Inr v
   \<and> swap (Error e :: ('t, 'e) Either) = Ok e
   \<and> isOk (swap (Error e :: ('t, 'e) Either))
   \<and> getValue (swap (Error e :: ('t, 'e) Either)) = Inr e
   \<and> swap (swap (Ok v :: ('t, 'e) Either)) = Ok v
   \<and> swap (swap (Error e :: ('t, 'e) Either)) = Error e
   \<and> isOk (swap (swap this)) = isOk this
   \<and> isError (swap (swap this)) = isError this
   \<and> getValue (swap (swap this)) = getValue this
   \<and> getError (swap (swap this)) = getError this"
  by (simp add: swap_def getValue_def getError_def isError_iff_not_isOk)

section \<open>Collection combinators\<close>

lemma sequence_loop_find:
  "sequence_loop eithers results =
     Inr (case find isError eithers of
            Some f \<Rightarrow> Error (this_error f)
          | None \<Rightarrow> Ok (Defined (results @ map this_value eithers)))"
  by (induction eithers arbitrary: results)
     (simp_all add: getError_isError getValue_not_isError split: option.split)

lemma partition_loop_filter:
  "partition_loop eithers oks errors =
     Inr (oks @ map this_value (filter isOk eithers),
          errors @ map this_error (filter isError eithers))"
  by (induction eithers arbitrary: oks errors)
     (simp_all add: getValue_isOk getError_isError isError_iff_not_isOk)

lemma traverse_loop_map:
  "map_throwing fn vs = Inr eithers \<Longrightarrow>
   traverse_loop vs fn results = sequence_loop eithers results"
proof (induction vs arbitrary: eithers results)
  case Nil
  then show ?case by simp
next
  case (Cons v rest)
  then show ?case
    by (auto split: sum.splits)
qed

lemma map_throwing_total: "map_throwing (\<lambda>v. Inr (f v)) vs = Inr (map f vs)"
  by (induction vs) simp_all

text \<open>
  C3: \<open>sequence\<close> never throws; its result is decided by the first element, from the
  left, that is in the failure state: when there is one, a failure instance wrapping that
  element's failure payload, and when there is none, a success instance wrapping the
  values of all elements in the input's order. So a list of successes followed by
  \<open>Error(e)\<close> gives \<open>Error(e)\<close> whatever comes after, a list of successes gives the
  list of their values, and the empty list gives a success wrapping the empty list.
\<close>

theorem sequence_first_error_wins:
  fixes eithers rest :: "('t, 'e) Either list"
  shows
  "sequence eithers =
     Inr (case find isError eithers of
            Some f \<Rightarrow> Error (this_error f)
          | None \<Rightarrow> Ok (Defined (map this_value eithers)))
   \<and> sequence (map Ok vs @ Error e # rest) = Inr (Error e)
   \<and> sequence (map Ok vs :: ('t, 'e) Either list) = Inr (Ok (Defined vs))
   \<and> sequence ([] :: ('t, 'e) Either list) = Inr (Ok (Defined []))"
proof -
  have find_fail: "find isError (map Ok ws @ Error e # rest) = Some (Error e)"
    for ws :: "'t or_undefined list"
    by (induction ws) simp_all
  have find_none: "find isError (map Ok ws :: ('t, 'e) Either list) = None"
    for ws :: "'t or_undefined list"
    by (induction ws) simp_all
  have vals: "map this_value (map Ok ws :: ('t, 'e) Either list) = ws"
    for ws :: "'t or_undefined list"
    by (induction ws) simp_all
  show ?thesis
    by (simp add: sequence_def sequence_loop_find find_fail find_none vals
        del: map_map split: option.split)
qed

text \<open>
  C4: \<open>partition\<close> returns the values of the success elements and the errors of the
  failure elements, each in the input's order; \<open>sequenceAll\<close> (exported as
  \<open>collectAllErrors\<close> too) returns a failure instance wrapping the whole list of
  failure payloads when that list is not empty, and otherwise a success instance wrapping
  the list of success payloads. On \<open>[Ok(1), Error('a'), Error('b')]\<close> it returns a
  failure wrapping \<open>['a', 'b']\<close>.
\<close>

theorem collectAllErrors_accumulates:
  "partition_Either eithers =
     Inr (map this_value (filter isOk eithers), map this_error (filter isError eithers))
   \<and> sequenceAll eithers =
     Inr (if filter isError eithers \<noteq> []
          then Error (Defined (map this_error (filter isError eithers)))
          else Ok (Defined (map this_value (filter isOk eithers))))
   \<and> collectAllErrors eithers = sequenceAll eithers
   \<and> collectAllErrors
        [Ok (Defined (1::nat)), Error (Defined ''a''), Error (Defined ''b'')]
       = Inr (Error (Defined [Defined ''a'', Defined ''b'']))"
  by (simp add: collectAllErrors_def sequenceAll_def partition_Either_def partition_loop_filter)

text \<open>
  C8: for every list and every function \<open>f\<close> from elements to Either, \<open>traverse\<close>
  returns what \<open>sequence\<close> returns on the list mapped by \<open>f\<close>, which is the
  specification's reading of it. More generally, for a function that may throw: whenever
  mapping it over the list yields a list of Eithers, \<open>traverse\<close> returns what
  \<open>sequence\<close> returns on that list.
\<close>

theorem traverse_is_map_then_sequence:
  "traverse list (\<lambda>v. Inr (f v)) = sequence (map f list)
   \<and> traverse list (\<lambda>v. Inr (f v)) = traverse_spec list (\<lambda>v. Inr (f v))
   \<and> (map_throwing fn list = Inr eithers \<longrightarrow>
        traverse list fn = sequence eithers
        \<and> traverse list fn = traverse_spec list fn)"
  by (simp add: traverse_def sequence_def traverse_spec_def map_throwing_total
      traverse_loop_map)

text \<open>
  C8 at the test-suite's \<open>traverse([1, 2, 3], x => x === 2 ? Error('Failed at 2') :
  Ok(x * 2))\<close>.
\<close>

theorem traverse_is_map_then_sequence_witness:
  "map_throwing double_unless_2 [1, 2, 3]
     = Inr [Ok (Defined 2), Error (Defined ''Failed at 2''), Ok (Defined 6)]
   \<and> traverse [1, 2, 3] double_unless_2
     = sequence [Ok (Defined 2), Error (Defined ''Failed at 2''), Ok (Defined 6)]
   \<and> traverse [1, 2, 3] double_unless_2 = traverse_spec [1, 2, 3] double_unless_2"
proof -
  have m: "map_throwing double_unless_2 [1, 2, 3]
     = Inr [Ok (Defined 2), Error (Defined ''Failed at 2''), Ok (Defined 6)]"
    by (simp add: double_unless_2_def)
  from m traverse_is_map_then_sequence
    [where fn = double_unless_2 and list = "[1, 2, 3]"
       and eithers = "[Ok (Defined 2), Error (Defined ''Failed at 2''), Ok (Defined 6)]"]
  show ?thesis
    by blast
qed

section \<open>Safe wrappers\<close>

lemma extractErrorMessage_simps [simp]:
  "extractErrorMessage (InstanceofThrows x) = Inl x"
  "extractErrorMessage (ErrorInstance m) = Inr (Defined m)"
  "extractErrorMessage (ErrorMessageThrows x) = Inl x"
  "extractErrorMessage (StringValue s) = Inr (Defined s)"
  "extractErrorMessage (ObjectValue obj) = JSON_stringify obj"
  "extractErrorMessage (OtherValue v) =
     (case js_String v of Inl x \<Rightarrow> Inl x | Inr s \<Rightarrow> Inr (Defined s))"
  by (simp_all add: extractErrorMessage_def safeStringify_def)

lemma safeSync_returns: "fn () = Inr v \<Longrightarrow> safeSync fn ErrClass = Inr (Ok v)"
  by (simp add: safeSync_def)

lemma safeSync_catches:
  "fn () = Inl error \<Longrightarrow>
   safeSync fn ErrClass =
     (case extractErrorMessage error of
        Inl x \<Rightarrow> Inl x
      | Inr msg \<Rightarrow> (case ErrClass msg of Inl x \<Rightarrow> Inl x | Inr e \<Rightarrow> Inr (Error (Defined e))))"
  by (simp add: safeSync_def)

lemma safeAsync_catches:
  "fn () = Inl error \<or> fn () = Inr (UntestableValue error) \<Longrightarrow>
   safeAsync fn ErrClass =
     (case extractErrorMessage error of
        Inl x \<Rightarrow> Inl x
      | Inr msg \<Rightarrow> (case ErrClass msg of Inl x \<Rightarrow> Inl x | Inr e \<Rightarrow> Inr (Error (Defined e))))"
  by (auto simp: safeAsync_def)

lemma sample_operations:
  "return_42 () = Inr (Defined 42)"
  "throw_Error () = Inl (ErrorInstance ''Function failed'')"
  "throw_boom () = Inl (StringValue ''boom'')"
  "throw_object () = Inl (ObjectValue (Serializable ''{}''))"
  "throw_null () = Inl (OtherValue Null)"
  "throw_undefined () = Inl (OtherValue (NonObject ''undefined''))"
  "throw_unprintable () = Inl (OtherValue (Unprintable (ErrorInstance ''toString failed'')))"
  "throw_unreadable () = Inl (ErrorMessageThrows (StringValue ''getter failed''))"
  "throw_proxy () = Inl (InstanceofThrows (StringValue ''trap failed''))"
  "throw_circularError ()
     = Inl (ObjectValue
         (Unserializable (ErrorInstance ''Converting circular structure to JSON'')))"
  "reject_circularError ()
     = Inl (ObjectValue
         (Unserializable (ErrorInstance ''Converting circular structure to JSON'')))"
  "resolve_Ok_42 () = Inr (EitherInstance (Ok (Defined 42)))"
  "resolve_42 () = Inr (PlainValue (Defined 42))"
  "resolve_proxy () = Inr (UntestableValue (StringValue ''trap failed''))"
  "reject_string () = Inl (StringValue ''Async string error'')"
  by (simp_all add: return_42_def throw_Error_def throw_boom_def throw_object_def
      throw_null_def throw_undefined_def throw_unprintable_def throw_unreadable_def
      throw_proxy_def throw_circularError_def reject_circularError_def
      circularError_def resolve_Ok_42_def resolve_42_def resolve_proxy_def reject_string_def)

lemma sample_conversions:
  "JSON_stringify (Serializable ''{}'') = Inr (Defined ''{}'')"
  "JSON_stringify (Unserializable (ErrorInstance ''Converting circular structure to JSON''))
     = Inl (ErrorInstance ''Converting circular structure to JSON'')"
  "js_String Null = Inr ''null''"
  "js_String (NonObject ''undefined'') = Inr ''undefined''"
  "js_String (Unprintable (ErrorInstance ''toString failed''))
     = Inl (ErrorInstance ''toString failed'')"
  "extractErrorMessage (StringValue ''boom'') = Inr (Defined ''boom'')"
  "extractErrorMessage (StringValue ''trap failed'') = Inr (Defined ''trap failed'')"
  "extractErrorMessage (StringValue ''Async string error'')
     = Inr (Defined ''Async string error'')"
  "extractErrorMessage
     (ObjectValue (Unserializable (ErrorInstance ''Converting circular structure to JSON'')))
     = Inl (ErrorInstance ''Converting circular structure to JSON'')"
  by simp_all

lemma sample_constructors:
  "new_Error (Defined ''Function failed'') = Inr (ErrorInstance ''Function failed'')"
  "new_Error (Defined ''boom'') = Inr (ErrorInstance ''boom'')"
  "new_Error (Defined ''{}'') = Inr (ErrorInstance ''{}'')"
  "new_Error (Defined ''null'') = Inr (ErrorInstance ''null'')"
  "new_Error (Defined ''undefined'') = Inr (ErrorInstance ''undefined'')"
  "new_Error (Defined ''trap failed'') = Inr (ErrorInstance ''trap failed'')"
  "new_Error (Defined ''Async string error'') = Inr (ErrorInstance ''Async string error'')"
  "new_FailingError (Defined ''boom'') = Inl (ErrorInstance ''constructor failed'')"
  "new_FailingError (Defined ''Async string error'')
     = Inl (ErrorInstance ''constructor failed'')"
  by (simp_all add: new_Error_def new_FailingError_def)

lemma safeSync_throws:
  "safeSync fn ErrClass = Inl y \<Longrightarrow>
   \<exists>thrown. fn () = Inl thrown
      \<and> (extractErrorMessage thrown = Inl y
         \<or> (\<exists>msg'. extractErrorMessage thrown = Inr msg' \<and> ErrClass msg' = Inl y))"
  unfolding safeSync_def
  by (cases "fn ()") (simp_all split: sum.splits)

lemma safeAsync_returns:
  "fn () = Inr (EitherInstance either) \<Longrightarrow> safeAsync fn ErrClass = Inr either"
  "fn () = Inr (PlainValue v) \<Longrightarrow> safeAsync fn ErrClass = Inr (Ok v)"
  by (simp_all add: safeAsync_def)

lemma safeAsync_throws:
  assumes "safeAsync fn ErrClass = Inl y"
  shows "\<exists>thrown. (fn () = Inl thrown \<or> fn () = Inr (UntestableValue thrown))
      \<and> (extractErrorMessage thrown = Inl y
         \<or> (\<exists>msg'. extractErrorMessage thrown = Inr msg' \<and> ErrClass msg' = Inl y))"
proof (cases "fn ()")
  case (Inl thrown)
  with assms show ?thesis
    by (simp add: safeAsync_catches split: sum.splits)
next
  case (Inr v)
  show ?thesis
  proof (cases v)
    case (EitherInstance either)
    with Inr assms show ?thesis by (simp add: safeAsync_returns)
  next
    case (PlainValue w)
    with Inr assms show ?thesis by (simp add: safeAsync_returns)
  next
    case (UntestableValue thrown)
    with Inr assms show ?thesis
      by (simp add: safeAsync_catches split: sum.splits)
  qed
qed

text \<open>
  C6 (as the claim states it, refuted): it is not on any thrown value that \<open>safeSync\<close>
  yields a failure instance. When the operation throws the test-suite's
  \<open>circularError\<close>, \<open>safeSync\<close> itself throws, the serializer's \<open>TypeError\<close>.
\<close>

theorem safeSync_circular_counterexample:
  "safeSync throw_circularError new_Error
     = Inl (ErrorInstance ''Converting circular structure to JSON'')"
  by (simp add: safeSync_def throw_circularError_def circularError_def)

text \<open>
  C6 (amended): \<open>safeSync\<close> runs the operation. On normal return it yields a success
  instance wrapping the result. On a thrown value it extracts a message (the message
  field of a thrown \<open>Error\<close>, a thrown string verbatim, what the serializer returns on a
  thrown non-null object, and otherwise the value's default string conversion) and, when
  the extraction and the error constructor both complete, yields a failure instance
  wrapping the error that the constructor builds from that message. When the extraction
  throws (the serializer on a circular structure, the string conversion, the read of the
  message, the \<open>instanceof\<close> test) or the constructor throws, \<open>safeSync\<close> throws what
  they throw; it throws nothing else, so what the operation throws is always caught.
\<close>

theorem safeSync_policy:
  "(fn () = Inr v \<longrightarrow> safeSync fn ErrClass = Inr (Ok v))
   \<and> (fn () = Inl (ErrorInstance m) \<and> ErrClass (Defined m) = Inr e \<longrightarrow>
        safeSync fn ErrClass = Inr (Error (Defined e)))
   \<and> (fn () = Inl (StringValue s) \<and> ErrClass (Defined s) = Inr e \<longrightarrow>
        safeSync fn ErrClass = Inr (Error (Defined e)))
   \<and> (fn () = Inl (ObjectValue obj) \<and> JSON_stringify obj = Inr json
        \<and> ErrClass json = Inr e \<longrightarrow>
        safeSync fn ErrClass = Inr (Error (Defined e)))
   \<and> (fn () = Inl (OtherValue other) \<and> js_String other = Inr s
        \<and> ErrClass (Defined s) = Inr e \<longrightarrow>
        safeSync fn ErrClass = Inr (Error (Defined e)))
   \<and> (fn () = Inl (ObjectValue obj) \<and> JSON_stringify obj = Inl x \<longrightarrow>
        safeSync fn ErrClass = Inl x)
   \<and> (fn () = Inl (OtherValue other) \<and> js_String other = Inl x \<longrightarrow>
        safeSync fn ErrClass = Inl x)
   \<and> (fn () = Inl (ErrorMessageThrows x) \<longrightarrow> safeSync fn ErrClass = Inl x)
   \<and> (fn () = Inl (InstanceofThrows x) \<longrightarrow> safeSync fn ErrClass = Inl x)
   \<and> (fn () = Inl error \<and> extractErrorMessage error = Inr msg \<and> ErrClass msg = Inl x \<longrightarrow>
        safeSync fn ErrClass = Inl x)
   \<and> (safeSync fn ErrClass = Inl y \<longrightarrow>
        (\<exists>thrown. fn () = Inl thrown
           \<and> (extractErrorMessage thrown = Inl y
              \<or> (\<exists>msg'. extractErrorMessage thrown = Inr msg' \<and> ErrClass msg' = Inl y))))"
proof (intro conjI impI)
  assume "safeSync fn ErrClass = Inl y"
  then show "\<exists>thrown. fn () = Inl thrown
           \<and> (extractErrorMessage thrown = Inl y
              \<or> (\<exists>msg'. extractErrorMessage thrown = Inr msg' \<and> ErrClass msg' = Inl y))"
    by (rule safeSync_throws)
qed (simp_all add: safeSync_returns safeSync_catches)

text \<open>
  C6 (amended) at operations that return 42, throw \<open>new Error('Function failed')\<close>,
  throw \<open>'boom'\<close>, throw an empty object, throw \<open>undefined\<close>, throw \<open>circularError\<close>,
  throw a function whose \<open>toString\<close> throws, throw an \<open>Error\<close> whose \<open>message\<close>
  getter throws and throw a proxy whose trap throws, with the built-in \<open>Error\<close> as the
  error constructor, and at the operation that throws \<open>'boom'\<close> with a constructor that
  throws.
\<close>

theorem safeSync_policy_witness:
  "return_42 () = Inr (Defined 42)
   \<and> safeSync return_42 new_Error = Inr (Ok (Defined 42))
   \<and> throw_Error () = Inl (ErrorInstance ''Function failed'')
   \<and> safeSync throw_Error new_Error
       = Inr (Error (Defined (ErrorInstance ''Function failed'')))
   \<and> throw_boom () = Inl (StringValue ''boom'')
   \<and> safeSync throw_boom new_Error = Inr (Error (Defined (ErrorInstance ''boom'')))
   \<and> throw_object () = Inl (ObjectValue (Serializable ''{}''))
   \<and> safeSync throw_object new_Error = Inr (Error (Defined (ErrorInstance ''{}'')))
   \<and> throw_undefined () = Inl (OtherValue (NonObject ''undefined''))
   \<and> safeSync throw_undefined new_Error
       = Inr (Error (Defined (ErrorInstance ''undefined'')))
   \<and> throw_circularError ()
       = Inl (ObjectValue
           (Unserializable (ErrorInstance ''Converting circular structure to JSON'')))
   \<and> safeSync throw_circularError new_Error
       = Inl (ErrorInstance ''Converting circular structure to JSON'')
   \<and> throw_unprintable () = Inl (OtherValue (Unprintable (ErrorInstance ''toString failed'')))
   \<and> safeSync throw_unprintable new_Error = Inl (ErrorInstance ''toString failed'')
   \<and> throw_unreadable () = Inl (ErrorMessageThrows (StringValue ''getter failed''))
   \<and> safeSync throw_unreadable new_Error = Inl (StringValue ''getter failed'')
   \<and> throw_proxy () = Inl (InstanceofThrows (StringValue ''trap failed''))
   \<and> safeSync throw_proxy new_Error = Inl (StringValue ''trap failed'')
   \<and> new_FailingError (Defined ''boom'') = Inl (ErrorInstance ''constructor failed'')
   \<and> safeSync throw_boom new_FailingError = Inl (ErrorInstance ''constructor failed'')
   \<and> (\<exists>thrown. throw_circularError () = Inl thrown
          \<and> (extractErrorMessage thrown
                = Inl (ErrorInstance ''Converting circular structure to JSON'')
             \<or> (\<exists>msg. extractErrorMessage thrown = Inr msg
                   \<and> new_Error msg
                       = Inl (ErrorInstance ''Converting circular structure to JSON''))))"
proof -
  note ops = sample_operations
  note ser = sample_conversions
  note con = sample_constructors
  note p = safeSync_policy [where ErrClass = new_Error]
  have r1: "safeSync return_42 new_Error = Inr (Ok (Defined 42))"
    by (rule p [THEN conjunct1, rule_format]) (simp add: ops)
  have r2: "safeSync throw_Error new_Error
       = Inr (Error (Defined (ErrorInstance ''Function failed'')))"
    by (rule p [where m = "''Function failed''",
          THEN conjunct2, THEN conjunct1, rule_format])
       (simp add: ops con)
  have r3: "safeSync throw_boom new_Error = Inr (Error (Defined (ErrorInstance ''boom'')))"
    by (rule p [where s = "''boom''",
          THEN conjunct2, THEN conjunct2, THEN conjunct1, rule_format]) (simp add: ops con)
  have r4: "safeSync throw_object new_Error = Inr (Error (Defined (ErrorInstance ''{}'')))"
    by (rule p [where obj = "Serializable ''{}''" and json = "Defined ''{}''",
          THEN conjunct2, THEN conjunct2, THEN conjunct2, THEN conjunct1, rule_format])
       (simp add: ops con)
  have r5: "safeSync throw_undefined new_Error
       = Inr (Error (Defined (ErrorInstance ''undefined'')))"
    by (rule p [where other = "NonObject ''undefined''" and s = "''undefined''",
          THEN conjunct2, THEN conjunct2, THEN conjunct2, THEN conjunct2, THEN conjunct1,
          rule_format])
       (simp add: ops con)
  have r6: "safeSync throw_circularError new_Error
       = Inl (ErrorInstance ''Converting circular structure to JSON'')"
    by (rule p [where obj = "Unserializable
            (ErrorInstance ''Converting circular structure to JSON'')",
          THEN conjunct2, THEN conjunct2, THEN conjunct2, THEN conjunct2, THEN conjunct2,
          THEN conjunct1, rule_format])
       (simp add: ops)
  have r7: "safeSync throw_unprintable new_Error = Inl (ErrorInstance ''toString failed'')"
    by (rule p [where other = "Unprintable (ErrorInstance ''toString failed'')",
          THEN conjunct2, THEN conjunct2, THEN conjunct2, THEN conjunct2, THEN conjunct2,
          THEN conjunct2, THEN conjunct1, rule_format])
       (simp add: ops)
  have r8: "safeSync throw_unreadable new_Error = Inl (StringValue ''getter failed'')"
    by (rule p
         [THEN conjunct2, THEN conjunct2, THEN conjunct2, THEN conjunct2, THEN conjunct2,
          THEN conjunct2, THEN conjunct2, THEN conjunct1, rule_format]) (simp add: ops)
  have r9: "safeSync throw_proxy new_Error = Inl (StringValue ''trap failed'')"
    by (rule p
         [THEN conjunct2, THEN conjunct2, THEN conjunct2, THEN conjunct2, THEN conjunct2,
          THEN conjunct2, THEN conjunct2, THEN conjunct2, THEN conjunct1, rule_format])
       (simp add: ops)
  have r10: "safeSync throw_boom new_FailingError = Inl (ErrorInstance ''constructor failed'')"
    by (rule safeSync_policy
          [where error = "StringValue ''boom''" and msg = "Defined ''boom''",
           THEN conjunct2, THEN conjunct2, THEN conjunct2, THEN conjunct2, THEN conjunct2,
          THEN conjunct2, THEN conjunct2, THEN conjunct2, THEN conjunct2, THEN conjunct1,
           rule_format])
       (simp add: ops con)
  have r11: "\<exists>thrown. throw_circularError () = Inl thrown
          \<and> (extractErrorMessage thrown
                = Inl (ErrorInstance ''Converting circular structure to JSON'')
             \<or> (\<exists>msg. extractErrorMessage thrown = Inr msg
                   \<and> new_Error msg
                       = Inl (ErrorInstance ''Converting circular structure to JSON'')))"
    by (rule p
         [THEN conjunct2, THEN conjunct2, THEN conjunct2, THEN conjunct2, THEN conjunct2,
          THEN conjunct2, THEN conjunct2, THEN conjunct2, THEN conjunct2, THEN conjunct2,
          rule_format])
       (rule r6)
  show ?thesis
    by (intro conjI) (rule r1 r2 r3 r4 r5 r6 r7 r8 r9 r10 r11 ops con)+
qed

text \<open>
  C7 (as the claim states it, refuted): \<open>safeAsync\<close> does not always resolve to an
  Either. When the awaited operation is rejected with the test-suite's \<open>circularError\<close>,
  the promise that \<open>safeAsync\<close> returns is rejected, with the serializer's \<open>TypeError\<close>.
\<close>

theorem safeAsync_circular_counterexample:
  "safeAsync reject_circularError new_Error
     = Inl (ErrorInstance ''Converting circular structure to JSON'')"
  by (simp add: safeAsync_def reject_circularError_def circularError_def)

text \<open>
  C7 (amended): once the awaited operation has settled, \<open>safeAsync\<close> resolves to the
  value the operation resolved to, unchanged, when that value is an Either instance, and
  to a success instance wrapping it when it is not. When the operation throws or is
  rejected with a value (or resolves to a value on which the instance test itself
  throws), \<open>safeAsync\<close> does what \<open>safeSync\<close> does on an operation throwing that value:
  it resolves to a failure instance wrapping the error that the constructor builds from
  the extracted message when the extraction and the constructor both complete, and its
  promise is rejected with what they throw when one of them throws, as the serializer
  does on a circular structure. Its promise is rejected with nothing else.
\<close>

theorem safeAsync_policy:
  "(fn () = Inr (EitherInstance either) \<longrightarrow> safeAsync fn ErrClass = Inr either)
   \<and> (fn () = Inr (PlainValue v) \<longrightarrow> safeAsync fn ErrClass = Inr (Ok v))
   \<and> (fn () = Inl error \<longrightarrow>
        safeAsync fn ErrClass = safeSync (\<lambda>u. Inl error) ErrClass)
   \<and> (fn () = Inr (UntestableValue error) \<longrightarrow>
        safeAsync fn ErrClass = safeSync (\<lambda>u. Inl error) ErrClass)
   \<and> (fn () = Inl error \<and> extractErrorMessage error = Inr msg \<and> ErrClass msg = Inr e \<longrightarrow>
        safeAsync fn ErrClass = Inr (Error (Defined e)))
   \<and> (fn () = Inl error \<and> extractErrorMessage error = Inl x \<longrightarrow>
        safeAsync fn ErrClass = Inl x)
   \<and> (fn () = Inl (ObjectValue obj) \<and> JSON_stringify obj = Inl x \<longrightarrow>
        safeAsync fn ErrClass = Inl x)
   \<and> (fn () = Inl error \<and> extractErrorMessage error = Inr msg \<and> ErrClass msg = Inl x \<longrightarrow>
        safeAsync fn ErrClass = Inl x)
   \<and> (safeAsync fn ErrClass = Inl y \<longrightarrow>
        (\<exists>thrown. (fn () = Inl thrown \<or> fn () = Inr (UntestableValue thrown))
           \<and> (extractErrorMessage thrown = Inl y
              \<or> (\<exists>msg'. extractErrorMessage thrown = Inr msg' \<and> ErrClass msg' = Inl y))))"
proof (intro conjI impI)
  assume "safeAsync fn ErrClass = Inl y"
  then show "\<exists>thrown. (fn () = Inl thrown \<or> fn () = Inr (UntestableValue thrown))
           \<and> (extractErrorMessage thrown = Inl y
              \<or> (\<exists>msg'. extractErrorMessage thrown = Inr msg' \<and> ErrClass msg' = Inl y))"
    by (rule safeAsync_throws)
qed (simp_all add: safeAsync_returns safeAsync_catches safeSync_catches)

text \<open>
  C7 (amended) at operations that resolve to \<open>Ok(42)\<close>, resolve to 42, resolve to a
  proxy whose trap throws, are rejected with a string and are rejected with
  \<open>circularError\<close>, with the built-in \<open>Error\<close> as the error constructor, and at the
  operation rejected with a string with a constructor that throws.
\<close>

theorem safeAsync_policy_witness:
  "resolve_Ok_42 () = Inr (EitherInstance (Ok (Defined 42)))
   \<and> safeAsync resolve_Ok_42 new_Error = Inr (Ok (Defined 42))
   \<and> resolve_42 () = Inr (PlainValue (Defined 42))
   \<and> safeAsync resolve_42 new_Error = Inr (Ok (Defined 42))
   \<and> reject_string () = Inl (StringValue ''Async string error'')
   \<and> safeAsync reject_string new_Error
       = safeSync (\<lambda>u. Inl (StringValue ''Async string error'')) new_Error
   \<and> safeAsync reject_string new_Error
       = Inr (Error (Defined (ErrorInstance ''Async string error'')))
   \<and> resolve_proxy () = Inr (UntestableValue (StringValue ''trap failed''))
   \<and> safeAsync resolve_proxy new_Error
       = safeSync (\<lambda>u. Inl (StringValue ''trap failed'')) new_Error
   \<and> reject_circularError ()
       = Inl (ObjectValue
           (Unserializable (ErrorInstance ''Converting circular structure to JSON'')))
   \<and> extractErrorMessage
         (ObjectValue
           (Unserializable (ErrorInstance ''Converting circular structure to JSON'')))
       = Inl (ErrorInstance ''Converting circular structure to JSON'')
   \<and> JSON_stringify (Unserializable (ErrorInstance ''Converting circular structure to JSON''))
       = Inl (ErrorInstance ''Converting circular structure to JSON'')
   \<and> safeAsync reject_circularError new_Error
       = Inl (ErrorInstance ''Converting circular structure to JSON'')
   \<and> new_FailingError (Defined ''Async string error'')
       = Inl (ErrorInstance ''constructor failed'')
   \<and> safeAsync reject_string new_FailingError = Inl (ErrorInstance ''constructor failed'')
   \<and> (\<exists>thrown. (reject_circularError () = Inl thrown
             \<or> reject_circularError () = Inr (UntestableValue thrown))
          \<and> (extractErrorMessage thrown
                = Inl (ErrorInstance ''Converting circular structure to JSON'')
             \<or> (\<exists>msg. extractErrorMessage thrown = Inr msg
                   \<and> new_Error msg
                       = Inl (ErrorInstance ''Converting circular structure to JSON''))))"
proof -
  note ops = sample_operations
  note ser = sample_conversions
  note con = sample_constructors
  note p = safeAsync_policy [where ErrClass = new_Error]
  have r1: "safeAsync resolve_Ok_42 new_Error = Inr (Ok (Defined 42))"
    by (rule p [THEN conjunct1, rule_format]) (simp add: ops)
  have r2: "safeAsync resolve_42 new_Error = Inr (Ok (Defined 42))"
    by (rule p
         [THEN conjunct2, THEN conjunct1, rule_format]) (simp add: ops)
  have r3: "safeAsync reject_string new_Error
       = safeSync (\<lambda>u. Inl (StringValue ''Async string error'')) new_Error"
    by (rule p
         [THEN conjunct2, THEN conjunct2, THEN conjunct1, rule_format]) (simp add: ops)
  have r4: "safeAsync reject_string new_Error
       = Inr (Error (Defined (ErrorInstance ''Async string error'')))"
    by (rule p [where error = "StringValue ''Async string error''"
            and msg = "Defined ''Async string error''",
          THEN conjunct2, THEN conjunct2, THEN conjunct2, THEN conjunct2, THEN conjunct1,
          rule_format])
       (simp add: ops con)
  have r5: "safeAsync resolve_proxy new_Error
       = safeSync (\<lambda>u. Inl (StringValue ''trap failed'')) new_Error"
    by (rule p
         [THEN conjunct2, THEN conjunct2, THEN conjunct2, THEN conjunct1, rule_format])
       (simp add: ops)
  have r6: "safeAsync reject_circularError new_Error
       = Inl (ErrorInstance ''Converting circular structure to JSON'')"
    by (rule p [where error = "ObjectValue
            (Unserializable (ErrorInstance ''Converting circular structure to JSON''))",
          THEN conjunct2, THEN conjunct2, THEN conjunct2, THEN conjunct2, THEN conjunct2,
          THEN conjunct1, rule_format])
       (simp add: ops)
  have r6': "safeAsync reject_circularError new_Error
       = Inl (ErrorInstance ''Converting circular structure to JSON'')"
    by (rule p [where obj = "Unserializable
            (ErrorInstance ''Converting circular structure to JSON'')",
          THEN conjunct2, THEN conjunct2, THEN conjunct2, THEN conjunct2, THEN conjunct2,
          THEN conjunct2, THEN conjunct1, rule_format])
       (simp add: ops)
  have r7: "safeAsync reject_string new_FailingError
       = Inl (ErrorInstance ''constructor failed'')"
    by (rule safeAsync_policy
          [where error = "StringValue ''Async string error''"
             and msg = "Defined ''Async string error''",
           THEN conjunct2, THEN conjunct2, THEN conjunct2, THEN conjunct2, THEN conjunct2,
           THEN conjunct2, THEN conjunct2, THEN conjunct1, rule_format])
       (simp add: ops con)
  have r8: "\<exists>thrown. (reject_circularError () = Inl thrown
             \<or> reject_circularError () = Inr (UntestableValue thrown))
          \<and> (extractErrorMessage thrown
                = Inl (ErrorInstance ''Converting circular structure to JSON'')
             \<or> (\<exists>msg. extractErrorMessage thrown = Inr msg
                   \<and> new_Error msg
                       = Inl (ErrorInstance ''Converting circular structure to JSON'')))"
    by (rule p
         [THEN conjunct2, THEN conjunct2, THEN conjunct2, THEN conjunct2, THEN conjunct2,
          THEN conjunct2, THEN conjunct2, THEN conjunct2, rule_format]) (rule r6)
  show ?thesis
    by (intro conjI) (rule r1 r2 r3 r4 r5 r6' r7 r8 ops ser con)+
qed

end
